theory Spec2Isabelle
  imports Complex_Main "HOL-Library.AList"
begin

section \<open>Gas Fee Optimizer: the data of \<open>src/gas-optimizer.js\<close>\<close>

text \<open>
  The program is JavaScript. Quantities in gwei are JavaScript numbers obtained by
  \<open>parseFloat\<close> from the decimal rendering of an integer amount of wei; they are modelled
  by the exact rational the decimal denotes, so the rounding of \<open>parseFloat\<close> and of
  \<open>+\<close> to the nearest double is not part of the model. The one number that is not such
  a quantity, the \<open>NaN\<close> that \<open>undefined + 0\<close> evaluates to, is kept apart in
  \<open>jsnumber\<close>; a comparison with \<open>NaN\<close> is false.
\<close>

datatype jsnumber = NaN | Val rat

fun js_lt :: "jsnumber \<Rightarrow> jsnumber \<Rightarrow> bool" where
  "js_lt (Val a) (Val b) = (a < b)"
| "js_lt _ _ = False"


text \<open>
  A reading is one of the two object shapes the program builds:
  \<open>{ gas_price_gwei, priority_fee_gwei }\<close> (the latter \<open>null\<close> or a number) and
  \<open>{ error }\<close>. Reading a field that the object does not have gives \<open>undefined\<close>,
  here \<open>None\<close>; \<open>null\<close> is \<open>None\<close> as well, the program never tells them apart.
\<close>

datatype reading = Reading rat "rat option" | Failure string

fun error :: "reading \<Rightarrow> string option" where
  "error (Failure s) = Some s"
| "error (Reading g p) = None"

fun gas_price_gwei :: "reading \<Rightarrow> rat option" where
  "gas_price_gwei (Reading g p) = Some g"
| "gas_price_gwei (Failure s) = None"

fun priority_fee_gwei :: "reading \<Rightarrow> rat option" where
  "priority_fee_gwei (Reading g p) = p"
| "priority_fee_gwei (Failure s) = None"

text \<open>Truthiness of an optional string: \<open>undefined\<close> and the empty string are falsy.\<close>

fun truthy_string :: "string option \<Rightarrow> bool" where
  "truthy_string None = False"
| "truthy_string (Some s) = (s \<noteq> [])"

section \<open>The Chain Ranker: \<open>chooseBestChain\<close>\<close>

text \<open>
  \<open>total = val.gas_price_gwei + pf\<close> with \<open>pf\<close> the priority fee, or 0 when it is
  \<open>null\<close> or \<open>undefined\<close>. An object without \<open>gas_price_gwei\<close> gives
  \<open>undefined + pf\<close>, which is \<open>NaN\<close>.
\<close>

definition total :: "reading \<Rightarrow> jsnumber" where
  "total val =
     (let pf = (case priority_fee_gwei val of None \<Rightarrow> 0 | Some p \<Rightarrow> p)
      in case gas_price_gwei val of None \<Rightarrow> NaN | Some g \<Rightarrow> Val (g + pf))"

text \<open>
  One iteration of the \<open>for\<close> loop over \<open>Object.entries(chains)\<close>; \<open>best\<close> is
  \<open>null\<close> or the object \<open>{ chain, score }\<close>, which is always truthy.
\<close>

definition choose_step ::
  "(string \<times> jsnumber) option \<Rightarrow> string \<times> reading \<Rightarrow> (string \<times> jsnumber) option" where
  "choose_step best kv =
     (if truthy_string (error (snd kv)) then best
      else case best of
             None \<Rightarrow> Some (fst kv, total (snd kv))
           | Some b \<Rightarrow> if js_lt (total (snd kv)) (snd b) then Some (fst kv, total (snd kv))
                       else Some b)"

fun choose_loop ::
  "(string \<times> jsnumber) option \<Rightarrow> (string \<times> reading) list \<Rightarrow> (string \<times> jsnumber) option" where
  "choose_loop best [] = best"
| "choose_loop best (kv # rest) = choose_loop (choose_step best kv) rest"

definition chooseBestChain :: "(string \<times> reading) list \<Rightarrow> string option" where
  "chooseBestChain entries =
     (case choose_loop None entries of None \<Rightarrow> None | Some b \<Rightarrow> Some (fst b))"

section \<open>Thrown values and JSON-RPC results\<close>

text \<open>
  What the libraries throw are \<open>Error\<close> objects, with a \<open>name\<close> and a
  \<open>message\<close>. \<open>String(err)\<close> is \<open>Error.prototype.toString\<close>.
\<close>

datatype js_error = JsError string string

fun message :: "js_error \<Rightarrow> string" where
  "message (JsError n m) = m"

fun String_of :: "js_error \<Rightarrow> string" where
  "String_of (JsError n m) = (if n = [] then m else if m = [] then n else n @ '': '' @ m)"

definition TypeError :: "string \<Rightarrow> js_error" where
  "TypeError m = JsError ''TypeError'' m"

text \<open>
  The result of \<open>provider.send\<close> is whatever JSON the endpoint answered. An object is
  the list of its own properties (keys distinct, as \<open>JSON.parse\<close> leaves them).
\<close>

datatype jsval =
    JUndefined
  | JNull
  | JBool bool
  | JNum rat
  | JStr string
  | JArr "jsval list"
  | JObj "(string \<times> jsval) list"

fun truthy :: "jsval \<Rightarrow> bool" where
  "truthy JUndefined = False"
| "truthy JNull = False"
| "truthy (JBool b) = b"
| "truthy (JNum n) = (n \<noteq> 0)"
| "truthy (JStr s) = (s \<noteq> [])"
| "truthy (JArr xs) = True"
| "truthy (JObj kvs) = True"

fun own_property :: "(string \<times> jsval) list \<Rightarrow> string \<Rightarrow> jsval" where
  "own_property kvs k = (case map_of kvs k of None \<Rightarrow> JUndefined | Some v \<Rightarrow> v)"

text \<open>
  The three property reads of the program, \<open>v.reward\<close>, \<open>v.length\<close> and \<open>v[0]\<close>:
  a \<open>TypeError\<close> on \<open>undefined\<close> and \<open>null\<close>, \<open>undefined\<close> where the value has
  no such property.
\<close>

fun get_reward :: "jsval \<Rightarrow> js_error + jsval" where
  "get_reward JUndefined = Inl (TypeError ''Cannot read properties of undefined'')"
| "get_reward JNull = Inl (TypeError ''Cannot read properties of null'')"
| "get_reward (JObj kvs) = Inr (own_property kvs ''reward'')"
| "get_reward _ = Inr JUndefined"

fun get_length :: "jsval \<Rightarrow> js_error + jsval" where
  "get_length JUndefined = Inl (TypeError ''Cannot read properties of undefined'')"
| "get_length JNull = Inl (TypeError ''Cannot read properties of null'')"
| "get_length (JObj kvs) = Inr (own_property kvs ''length'')"
| "get_length (JArr xs) = Inr (JNum (of_nat (length xs)))"
| "get_length (JStr s) = Inr (JNum (of_nat (length s)))"
| "get_length _ = Inr JUndefined"

fun get_0 :: "jsval \<Rightarrow> js_error + jsval" where
  "get_0 JUndefined = Inl (TypeError ''Cannot read properties of undefined'')"
| "get_0 JNull = Inl (TypeError ''Cannot read properties of null'')"
| "get_0 (JObj kvs) = Inr (own_property kvs ''0'')"
| "get_0 (JArr []) = Inr JUndefined"
| "get_0 (JArr (x # xs)) = Inr x"
| "get_0 (JStr []) = Inr JUndefined"
| "get_0 (JStr (c # cs)) = Inr (JStr [c])"
| "get_0 _ = Inr JUndefined"

section \<open>The Gas Data Fetcher: \<open>fetchGasData\<close>\<close>

text \<open>
  The functions of the ethers library that the fetcher calls on data it does not control,
  \<open>ethers.utils.hexValue\<close> and \<open>ethers.BigNumber.from\<close> (which throws on what it
  cannot read as an integer), are parameters of the model.
\<close>

record ethers =
  hexValue :: "nat \<Rightarrow> string"
  BigNumber_from :: "jsval \<Rightarrow> js_error + int"

text \<open>
  \<open>BigNumber\<close> is an integer of any size; \<open>add\<close> is addition and \<open>div\<close> truncates
  towards zero. \<open>formatUnits(x, 'gwei')\<close> is the decimal of \<open>x / 10^9\<close>.
\<close>

definition bn_div :: "int \<Rightarrow> int \<Rightarrow> int" where
  "bn_div a b = sgn a * sgn b * (\<bar>a\<bar> div \<bar>b\<bar>)"

definition gwei :: "int \<Rightarrow> rat" where
  "gwei wei = of_int wei / 10 ^ 9"

text \<open>What one endpoint answers to the three requests the fetcher can make.\<close>

record provider =
  getGasPrice :: "js_error + int"
  getBlockNumber :: "js_error + nat"
  send :: "string \<Rightarrow> jsval list \<Rightarrow> js_error + jsval"

datatype rpc_call = Call_getGasPrice | Call_getBlockNumber | Call_send string "jsval list"

text \<open>The callback \<open>r => r && r[0] ? ethers.BigNumber.from(r[0]) : null\<close>.\<close>

definition reward_entry :: "ethers \<Rightarrow> jsval \<Rightarrow> js_error + int option" where
  "reward_entry E r =
     (if \<not> truthy r then Inr None
      else (case get_0 r of
              Inl e \<Rightarrow> Inl e
            | Inr x \<Rightarrow>
                (if \<not> truthy x then Inr None
                 else (case BigNumber_from E x of Inl e \<Rightarrow> Inl e | Inr n \<Rightarrow> Inr (Some n)))))"



fun map_entries :: "ethers \<Rightarrow> jsval list \<Rightarrow> js_error + int option list" where
  "map_entries E [] = Inr []"
| "map_entries E (r # rs) =
     (case reward_entry E r of
        Inl e \<Rightarrow> Inl e
      | Inr x \<Rightarrow> (case map_entries E rs of Inl e \<Rightarrow> Inl e | Inr xs \<Rightarrow> Inr (x # xs)))"

text \<open>\<open>res.reward.map(...)\<close>: only an array has the method.\<close>

fun reward_map :: "ethers \<Rightarrow> jsval \<Rightarrow> js_error + int option list" where
  "reward_map E (JArr rs) = map_entries E rs"
| "reward_map E _ = Inl (TypeError ''res.reward.map is not a function'')"

text \<open>\<open>.filter(Boolean)\<close> drops the \<open>null\<close>s; a \<open>BigNumber\<close> object is truthy, zero too.\<close>

fun filter_Boolean :: "int option list \<Rightarrow> int list" where
  "filter_Boolean [] = []"
| "filter_Boolean (None # xs) = filter_Boolean xs"
| "filter_Boolean (Some n # xs) = n # filter_Boolean xs"

definition avgReward :: "int list \<Rightarrow> int" where
  "avgReward rewards = bn_div (foldl (\<lambda>a b. a + b) 0 rewards) (int (length rewards))"

text \<open>What the \<open>if (res && res.reward && res.reward.length)\<close> block leaves in \<open>priorityFeeGwei\<close>.\<close>

definition priority_of_history :: "ethers \<Rightarrow> jsval \<Rightarrow> js_error + rat option" where
  "priority_of_history E res =
     (if \<not> truthy res then Inr None
      else (case get_reward res of
        Inl e \<Rightarrow> Inl e
      | Inr reward \<Rightarrow>
          (if \<not> truthy reward then Inr None
           else (case get_length reward of
             Inl e \<Rightarrow> Inl e
           | Inr len \<Rightarrow>
               (if \<not> truthy len then Inr None
                else (case reward_map E reward of
                  Inl e \<Rightarrow> Inl e
                | Inr mapped \<Rightarrow>
                    (let rewards = filter_Boolean mapped
                     in if rewards = [] then Inr None
                        else Inr (Some (gwei (avgReward rewards))))))))))"

definition feeHistory_params :: "ethers \<Rightarrow> nat \<Rightarrow> jsval list" where
  "feeHistory_params E latest = [JStr (hexValue E 5), JStr (hexValue E latest), JArr [JNum 50]]"

text \<open>
  The body of the inner \<open>try\<close>: its outcome (what was thrown, or the value of
  \<open>priorityFeeGwei\<close>) and the requests made, in order.
\<close>

definition estimate_priority :: "ethers \<Rightarrow> provider \<Rightarrow> (js_error + rat option) \<times> rpc_call list" where
  "estimate_priority E p =
     (case getBlockNumber p of
        Inl e \<Rightarrow> (Inl e, [Call_getBlockNumber])
      | Inr latest \<Rightarrow>
          (case send p ''eth_feeHistory'' (feeHistory_params E latest) of
             Inl e \<Rightarrow>
               (Inl e, [Call_getBlockNumber, Call_send ''eth_feeHistory'' (feeHistory_params E latest)])
           | Inr res \<Rightarrow>
               (priority_of_history E res,
                [Call_getBlockNumber, Call_send ''eth_feeHistory'' (feeHistory_params E latest)])))"

definition fetchGasData :: "ethers \<Rightarrow> provider \<Rightarrow> reading \<times> rpc_call list" where
  "fetchGasData E p =
     (case getGasPrice p of
        Inl err \<Rightarrow> (Failure (String_of err), [Call_getGasPrice])
      | Inr gasPrice \<Rightarrow>
          (let attempt = estimate_priority E p;
               priorityFeeGwei = (case fst attempt of Inl e \<Rightarrow> None | Inr v \<Rightarrow> v)
           in (Reading (gwei gasPrice) priorityFeeGwei, Call_getGasPrice # snd attempt)))"

section \<open>The Chain Registry and the report\<close>

record chain_meta =
  name :: string
  rpcEnv :: string

definition CHAINS :: "(string \<times> chain_meta) list" where
  "CHAINS =
     [(''base'', \<lparr>name = ''Base'', rpcEnv = ''RPC_BASE''\<rparr>),
      (''optimism'', \<lparr>name = ''Optimism'', rpcEnv = ''RPC_OPTIMISM''\<rparr>),
      (''arbitrum'', \<lparr>name = ''Arbitrum'', rpcEnv = ''RPC_ARBITRUM''\<rparr>)]"

record report =
  timestamp :: string
  best_chain :: "string option"
  recommendation :: string
  chains :: "(string \<times> reading) list"

text \<open>Lines 100 to 108 of \<open>main\<close>: ranking, recommendation text, the report object.\<close>

definition recommendation_for :: "string option \<Rightarrow> string" where
  "recommendation_for best =
     (case best of
        None \<Rightarrow> ''No recommendation (insufficient data).''
      | Some k \<Rightarrow>
          if k = [] then ''No recommendation (insufficient data).''
          else ''Send your transactions on '' @ k @ '' now for lowest fees.'')"

definition make_report :: "string \<Rightarrow> (string \<times> reading) list \<Rightarrow> report" where
  "make_report ts results =
     \<lparr>timestamp = ts,
      best_chain = chooseBestChain results,
      recommendation = recommendation_for (chooseBestChain results),
      chains = results\<rparr>"

text \<open>\<open>'report-' + timestamp.replace(/[:.]/g,'-') + '.json'\<close>, a name inside \<open>REPORTS_DIR\<close>.\<close>

definition report_filename :: "string \<Rightarrow> string" where
  "report_filename ts =
     ''report-'' @ map (\<lambda>c. if c = CHR '':'' \<or> c = CHR ''.'' then CHR ''-'' else c) ts @ ''.json''"

section \<open>The Orchestrator: \<open>main\<close> and the process around it\<close>

text \<open>
  Everything the program reads from outside in one run: the environment, the clock, the
  endpoints (by URL), and whether the directory creation, the file write and the webhook
  post succeed (\<open>None\<close>) or throw.
\<close>

record world =
  env :: "string \<Rightarrow> string option"
  toISOString_now :: string
  ethers_lib :: ethers
  endpoint :: "string \<Rightarrow> provider"
  reports_dir_exists :: bool
  mkdirSync :: "js_error option"
  writeFileSync :: "string \<Rightarrow> report \<Rightarrow> js_error option"
  axios_post :: "string \<Rightarrow> report \<Rightarrow> js_error option"

text \<open>
  What a run does, in order. A request carries the chain it was made for. \<open>Wrote\<close> is
  a write that succeeded; \<open>PostFailed\<close> is a post that was attempted and threw.
\<close>

datatype event =
    MkDir
  | Rpc string string rpc_call
  | Wrote string report
  | LogWrote string
  | Posted string report
  | LogPosted
  | PostFailed string report js_error
  | WarnPostFailed "string + js_error"
  | LogReport report
  | ConsoleError js_error

text \<open>The report that an event writes, posts or prints.\<close>

definition carried :: "event \<Rightarrow> report option" where
  "carried e =
     (case e of
        Wrote f r \<Rightarrow> Some r
      | Posted u r \<Rightarrow> Some r
      | PostFailed u r err \<Rightarrow> Some r
      | LogReport r \<Rightarrow> Some r
      | _ \<Rightarrow> None)"

definition getProvider :: "world \<Rightarrow> string \<Rightarrow> provider" where
  "getProvider w rpcUrl = endpoint w rpcUrl"

text \<open>The body of the loop over \<open>Object.entries(CHAINS)\<close>: the reading stored under the key.\<close>

definition chain_step :: "world \<Rightarrow> string \<Rightarrow> chain_meta \<Rightarrow> reading \<times> event list" where
  "chain_step w key meta =
     (case env w (rpcEnv meta) of
        None \<Rightarrow> (Failure (''Missing env '' @ rpcEnv meta), [])
      | Some rpc \<Rightarrow>
          (if rpc = [] then (Failure (''Missing env '' @ rpcEnv meta), [])
           else (let fetched = fetchGasData (ethers_lib w) (getProvider w rpc)
                 in (fst fetched, map (Rpc key rpc) (snd fetched)))))"

fun main_loop ::
  "world \<Rightarrow> (string \<times> chain_meta) list \<Rightarrow> (string \<times> reading) list \<Rightarrow> event list
     \<Rightarrow> (string \<times> reading) list \<times> event list" where
  "main_loop w [] results tr = (results, tr)"
| "main_loop w (km # rest) results tr =
     main_loop w rest
       (AList.update (fst km) (fst (chain_step w (fst km) (snd km))) results)
       (tr @ snd (chain_step w (fst km) (snd km)))"

definition built_report :: "world \<Rightarrow> report" where
  "built_report w = make_report (toISOString_now w) (fst (main_loop w CHAINS [] []))"

text \<open>\<open>console.warn('Webhook post failed:', e.message || e)\<close>.\<close>

definition warn_argument :: "js_error \<Rightarrow> string + js_error" where
  "warn_argument e = (if message e = [] then Inr e else Inl (message e))"

text \<open>\<open>main\<close>: the events, and \<open>None\<close> when the promise resolves, the error when it rejects.\<close>

definition main :: "world \<Rightarrow> event list \<times> js_error option" where
  "main w =
     (let tr = snd (main_loop w CHAINS [] []);
          report = built_report w;
          filename = report_filename (toISOString_now w)
      in case writeFileSync w filename report of
           Some err \<Rightarrow> (tr, Some err)
         | None \<Rightarrow>
             (let tr1 = tr @ [Wrote filename report, LogWrote filename];
                  tr2 =
                    (case env w ''WEBHOOK_URL'' of
                       None \<Rightarrow> tr1
                     | Some webhook \<Rightarrow>
                         if webhook = [] then tr1
                         else (case axios_post w webhook report of
                                 None \<Rightarrow> tr1 @ [Posted webhook report, LogPosted]
                               | Some e \<Rightarrow>
                                   tr1 @ [PostFailed webhook report e,
                                          WarnPostFailed (warn_argument e)]))
              in (tr2 @ [LogReport report], None)))"

text \<open>
  The process: the module creates the reports directory when it is missing (an exception
  there ends the process with code 1), then runs \<open>main\<close>; a rejection is printed and
  the process exits with code 1, otherwise it ends with code 0.
\<close>

definition run :: "world \<Rightarrow> event list \<times> nat" where
  "run w =
     (if \<not> reports_dir_exists w \<and> mkdirSync w \<noteq> None then ([], 1)
      else (let pre = (if reports_dir_exists w then [] else [MkDir])
            in case main w of
                 (tr, None) \<Rightarrow> (pre @ tr, 0)
               | (tr, Some err) \<Rightarrow> (pre @ tr @ [ConsoleError err], 1)))"

section \<open>Example runs\<close>

text \<open>
  One concrete run, used to instantiate the theorems. The Base endpoint answers a gas price
  of 12 gwei and a fee history of three blocks, of which the second reports no reward; the
  Optimism endpoint answers 6 gwei and a fee history whose only reward cannot be read as an
  integer; \<open>RPC_ARBITRUM\<close> is unset; the webhook is configured and refuses the connection.
  The two library functions are fixed on the values that occur.
\<close>

definition demo_ethers :: ethers where
  "demo_ethers =
     \<lparr>hexValue = (\<lambda>n. if n = 5 then ''0x5'' else if n = 100 then ''0x64'' else ''0x0''),
      BigNumber_from =
        (\<lambda>v. if v = JStr ''0x2'' then Inr 2 else if v = JStr ''0x5'' then Inr 5
             else Inl (JsError ''Error'' ''invalid BigNumber value''))\<rparr>"

definition base_provider :: provider where
  "base_provider =
     \<lparr>getGasPrice = Inr 12000000000,
      getBlockNumber = Inr 100,
      send = (\<lambda>method params.
        if method = ''eth_feeHistory'' \<and> params = [JStr ''0x5'', JStr ''0x64'', JArr [JNum 50]]
        then Inr (JObj [(''oldestBlock'', JStr ''0x60''),
                        (''reward'', JArr [JArr [JStr ''0x2''], JArr [], JArr [JStr ''0x5'']])])
        else Inl (JsError ''Error'' ''method not found''))\<rparr>"

definition optimism_provider :: provider where
  "optimism_provider =
     \<lparr>getGasPrice = Inr 6000000000,
      getBlockNumber = Inr 100,
      send = (\<lambda>method params. Inr (JObj [(''reward'', JArr [JArr [JStr ''garbage'']])]))\<rparr>"

definition demo_world :: world where
  "demo_world =
     \<lparr>env = (\<lambda>v. if v = ''RPC_BASE'' then Some ''https://base.example''
                 else if v = ''RPC_OPTIMISM'' then Some ''https://optimism.example''
                 else if v = ''WEBHOOK_URL'' then Some ''https://hook.example''
                 else None),
      toISOString_now = ''2025-09-28T12:00:00.000Z'',
      ethers_lib = demo_ethers,
      endpoint = (\<lambda>url. if url = ''https://base.example'' then base_provider else optimism_provider),
      reports_dir_exists = True,
      mkdirSync = None,
      writeFileSync = (\<lambda>file r. None),
      axios_post = (\<lambda>url r. Some (JsError ''Error'' ''connect ECONNREFUSED''))\<rparr>"

definition demo_report :: report where
  "demo_report =
     \<lparr>timestamp = ''2025-09-28T12:00:00.000Z'',
      best_chain = Some ''optimism'',
      recommendation = ''Send your transactions on optimism now for lowest fees.'',
      chains =
        [(''base'', Reading 12 (Some (3 / 10 ^ 9))),
         (''optimism'', Reading 6 None),
         (''arbitrum'', Failure ''Missing env RPC_ARBITRUM'')]\<rparr>"

text \<open>The readings of the example report in the README.\<close>

definition readme_results :: "(string \<times> reading) list" where
  "readme_results =
     [(''base'', Reading 12 (Some (12 / 10))),
      (''optimism'', Reading 6 (Some (8 / 10))),
      (''arbitrum'', Reading 9 (Some 1))]"

section \<open>Lemmas about the ranker's loop\<close>

lemma choose_loop_origin:
  "choose_loop best rs = Some b \<Longrightarrow>
     best = Some b \<or> (\<exists>v. (fst b, v) \<in> set rs \<and> \<not> truthy_string (error v) \<and> snd b = total v)"
proof (induction rs arbitrary: best)
  case Nil
  then show ?case by simp
next
  case (Cons kv rs)
  from Cons.IH [OF Cons.prems [simplified]]
  show ?case
    by (cases kv) (auto simp: choose_step_def split: if_splits option.splits)
qed












lemma chooseBestChain_origin:
  "chooseBestChain rs = Some k \<Longrightarrow> \<exists>v. (k, v) \<in> set rs \<and> \<not> truthy_string (error v)"
proof -
  assume "chooseBestChain rs = Some k"
  then obtain t where "choose_loop None rs = Some (k, t)"
    by (auto simp: chooseBestChain_def split: option.splits)
  from choose_loop_origin [OF this] show ?thesis by auto
qed

section \<open>Lemmas about the fetcher\<close>






lemma priority_of_history_unusable:
  "priority_of_history E JUndefined = Inr None"
  "priority_of_history E JNull = Inr None"
  "priority_of_history E (JObj []) = Inr None"
  "priority_of_history E (JObj [(''reward'', JArr [])]) = Inr None"
  "priority_of_history E (JObj [(''reward'', JArr [JNull, JArr []])]) = Inr None"
  "priority_of_history E (JObj [(''reward'', JStr ''none'')])
     = Inl (TypeError ''res.reward.map is not a function'')"
  by (simp_all add: priority_of_history_def reward_entry_def)





section \<open>Lemmas about the orchestrator's loop\<close>

lemma update_fresh: "k \<notin> fst ` set al \<Longrightarrow> AList.update k v al = al @ [(k, v)]"
  by (induction al) auto

lemma main_loop_closed_form:
  assumes "distinct (map fst reg)" and "fst ` set reg \<inter> fst ` set results = {}"
  shows "main_loop w reg results tr =
    (results @ map (\<lambda>km. (fst km, fst (chain_step w (fst km) (snd km)))) reg,
     tr @ concat (map (\<lambda>km. snd (chain_step w (fst km) (snd km))) reg))"
  using assms
proof (induction reg arbitrary: results tr)
  case Nil
  then show ?case by simp
next
  case (Cons km reg)
  from Cons.prems have fresh: "fst km \<notin> fst ` set results" by auto
  have "fst ` set reg \<inter> fst ` set (results @ [(fst km, fst (chain_step w (fst km) (snd km)))]) = {}"
    using Cons.prems by auto
  with Cons.IH [of "results @ [(fst km, fst (chain_step w (fst km) (snd km)))]"] Cons.prems(1)
  show ?case by (simp add: update_fresh [OF fresh])
qed

lemma CHAINS_distinct: "distinct (map fst CHAINS)"
  by (simp add: CHAINS_def)

lemma main_loop_CHAINS:
  "main_loop w CHAINS [] [] =
    (map (\<lambda>km. (fst km, fst (chain_step w (fst km) (snd km)))) CHAINS,
     concat (map (\<lambda>km. snd (chain_step w (fst km) (snd km))) CHAINS))"
  using main_loop_closed_form [OF CHAINS_distinct, of "[]" w "[]"] by simp

lemma chains_built_report:
  "chains (built_report w) = map (\<lambda>km. (fst km, fst (chain_step w (fst km) (snd km)))) CHAINS"
  by (simp add: built_report_def make_report_def main_loop_CHAINS)

lemma keys_built_report: "map fst (chains (built_report w)) = map fst CHAINS"
  by (simp add: chains_built_report comp_def)

lemma chain_step_events: "e \<in> set (snd (chain_step w key meta)) \<Longrightarrow> \<exists>url c. e = Rpc key url c"
  by (auto simp: chain_step_def Let_def split: option.splits if_splits)

lemma main_loop_events:
  "e \<in> set (snd (main_loop w CHAINS [] [])) \<Longrightarrow>
     \<exists>key meta. (key, meta) \<in> set CHAINS \<and> e \<in> set (snd (chain_step w key meta))"
  unfolding main_loop_CHAINS by simp (metis prod.collapse)

lemma map_of_built_report:
  assumes "(key, meta) \<in> set CHAINS"
  shows "map_of (chains (built_report w)) key = Some (fst (chain_step w key meta))"
proof -
  have d: "distinct (map fst (chains (built_report w)))"
    by (simp add: keys_built_report CHAINS_distinct)
  from assms have "(key, fst (chain_step w key meta)) \<in> set (chains (built_report w))"
    by (force simp: chains_built_report)
  with d show ?thesis by simp
qed

lemma best_chain_built_report:
  "best_chain (built_report w) = chooseBestChain (chains (built_report w))"
  by (simp add: built_report_def make_report_def)

lemma loop_events_are_requests:
  "ev \<in> set (snd (main_loop w CHAINS [] [])) \<Longrightarrow> \<exists>k u c. ev = Rpc k u c"
  using main_loop_events chain_step_events by blast

lemma run_cases:
  "run w =
    (if \<not> reports_dir_exists w \<and> mkdirSync w \<noteq> None then ([], 1)
     else case writeFileSync w (report_filename (toISOString_now w)) (built_report w) of
       Some err \<Rightarrow>
         ((if reports_dir_exists w then [] else [MkDir]) @ snd (main_loop w CHAINS [] []) @
            [ConsoleError err], 1)
     | None \<Rightarrow>
         ((if reports_dir_exists w then [] else [MkDir]) @ snd (main_loop w CHAINS [] []) @
            [Wrote (report_filename (toISOString_now w)) (built_report w),
             LogWrote (report_filename (toISOString_now w))] @
            (case env w ''WEBHOOK_URL'' of
               None \<Rightarrow> []
             | Some webhook \<Rightarrow>
                 if webhook = [] then []
                 else (case axios_post w webhook (built_report w) of
                         None \<Rightarrow> [Posted webhook (built_report w), LogPosted]
                       | Some e \<Rightarrow>
                           [PostFailed webhook (built_report w) e, WarnPostFailed (warn_argument e)])) @
            [LogReport (built_report w)], 0))"
  by (simp add: run_def main_def Let_def split: option.splits)

lemma carried_in_run:
  assumes "ev \<in> set (fst (run w))" and "carried ev = Some r"
  shows "r = built_report w"
proof -
  have "carried ev = None" if "ev \<in> set (snd (main_loop w CHAINS [] []))"
    using loop_events_are_requests [OF that] by (auto simp: carried_def)
  with assms show ?thesis
    by (auto simp: run_cases carried_def split: if_splits option.splits)
qed

section \<open>The example run, evaluated\<close>

lemma demo_base: "fetchGasData demo_ethers base_provider =
     (Reading 12 (Some (3 / 10 ^ 9)),
      [Call_getGasPrice, Call_getBlockNumber,
       Call_send ''eth_feeHistory'' [JStr ''0x5'', JStr ''0x64'', JArr [JNum 50]]])"
  by (simp add: fetchGasData_def estimate_priority_def feeHistory_params_def
        priority_of_history_def reward_entry_def avgReward_def bn_div_def gwei_def
        demo_ethers_def base_provider_def)

lemma demo_optimism: "fetchGasData demo_ethers optimism_provider =
     (Reading 6 None,
      [Call_getGasPrice, Call_getBlockNumber,
       Call_send ''eth_feeHistory'' [JStr ''0x5'', JStr ''0x64'', JArr [JNum 50]]])"
  by (simp add: fetchGasData_def estimate_priority_def feeHistory_params_def
        priority_of_history_def reward_entry_def gwei_def
        demo_ethers_def optimism_provider_def)

lemma demo_steps:
  "chain_step demo_world ''base'' \<lparr>name = ''Base'', rpcEnv = ''RPC_BASE''\<rparr> =
     (Reading 12 (Some (3 / 10 ^ 9)),
      map (Rpc ''base'' ''https://base.example'')
        [Call_getGasPrice, Call_getBlockNumber,
         Call_send ''eth_feeHistory'' [JStr ''0x5'', JStr ''0x64'', JArr [JNum 50]]])"
  "chain_step demo_world ''optimism'' \<lparr>name = ''Optimism'', rpcEnv = ''RPC_OPTIMISM''\<rparr> =
     (Reading 6 None,
      map (Rpc ''optimism'' ''https://optimism.example'')
        [Call_getGasPrice, Call_getBlockNumber,
         Call_send ''eth_feeHistory'' [JStr ''0x5'', JStr ''0x64'', JArr [JNum 50]]])"
  "chain_step demo_world ''arbitrum'' \<lparr>name = ''Arbitrum'', rpcEnv = ''RPC_ARBITRUM''\<rparr> =
     (Failure ''Missing env RPC_ARBITRUM'', [])"
  by (simp_all add: chain_step_def demo_world_def getProvider_def demo_base demo_optimism)

lemma demo_fields:
  "toISOString_now demo_world = ''2025-09-28T12:00:00.000Z''"
  "env demo_world ''WEBHOOK_URL'' = Some ''https://hook.example''"
  "reports_dir_exists demo_world"
  "writeFileSync demo_world file r = None"
  "axios_post demo_world url r = Some (JsError ''Error'' ''connect ECONNREFUSED'')"
  by (simp_all add: demo_world_def)

lemma demo_loop:
  "main_loop demo_world CHAINS [] [] =
     ([(''base'', Reading 12 (Some (3 / 10 ^ 9))),
       (''optimism'', Reading 6 None),
       (''arbitrum'', Failure ''Missing env RPC_ARBITRUM'')],
      map (Rpc ''base'' ''https://base.example'')
        [Call_getGasPrice, Call_getBlockNumber,
         Call_send ''eth_feeHistory'' [JStr ''0x5'', JStr ''0x64'', JArr [JNum 50]]] @
      map (Rpc ''optimism'' ''https://optimism.example'')
        [Call_getGasPrice, Call_getBlockNumber,
         Call_send ''eth_feeHistory'' [JStr ''0x5'', JStr ''0x64'', JArr [JNum 50]]])"
  unfolding main_loop_CHAINS by (simp add: CHAINS_def demo_steps)

lemma demo_built_report: "built_report demo_world = demo_report"
  by (simp add: built_report_def demo_loop make_report_def demo_report_def demo_fields
        chooseBestChain_def choose_step_def total_def recommendation_for_def)

lemma demo_run:
  "run demo_world =
     (map (Rpc ''base'' ''https://base.example'')
        [Call_getGasPrice, Call_getBlockNumber,
         Call_send ''eth_feeHistory'' [JStr ''0x5'', JStr ''0x64'', JArr [JNum 50]]] @
      map (Rpc ''optimism'' ''https://optimism.example'')
        [Call_getGasPrice, Call_getBlockNumber,
         Call_send ''eth_feeHistory'' [JStr ''0x5'', JStr ''0x64'', JArr [JNum 50]]] @
      [Wrote ''report-2025-09-28T12-00-00-000Z.json'' demo_report,
       LogWrote ''report-2025-09-28T12-00-00-000Z.json'',
       PostFailed ''https://hook.example'' demo_report (JsError ''Error'' ''connect ECONNREFUSED''),
       WarnPostFailed (Inl ''connect ECONNREFUSED''),
       LogReport demo_report],
      0)"
  by (simp add: run_def main_def demo_built_report demo_loop demo_fields
        report_filename_def warn_argument_def Let_def)

section \<open>The claims\<close>




text \<open>
  C2. In every run, whatever the environment and the endpoints do, the keys of the
  \<open>chains\<close> map of the report that \<open>main\<close> builds are exactly the chain ids of the
  registry, and every report that the run writes, posts or prints is that report.
\<close>

theorem every_report_lists_every_chain:
  "fst ` set (chains (built_report w)) = fst ` set CHAINS \<and>
   (\<forall>ev\<in>set (fst (run w)). \<forall>r. carried ev = Some r \<longrightarrow> fst ` set (chains r) = fst ` set CHAINS)"
proof -
  have "set (map fst (chains (built_report w))) = set (map fst CHAINS)"
    by (simp only: keys_built_report)
  then have k: "fst ` set (chains (built_report w)) = fst ` set CHAINS" by simp
  with carried_in_run show ?thesis by blast
qed

text \<open>In the example run one chain is unconfigured and the report still lists all three.\<close>

theorem every_report_lists_every_chain_witness:
  "LogReport demo_report \<in> set (fst (run demo_world)) \<and>
   carried (LogReport demo_report) = Some demo_report \<and>
   map_of (chains demo_report) ''arbitrum'' = Some (Failure ''Missing env RPC_ARBITRUM'') \<and>
   fst ` set (chains demo_report) = {''base'', ''optimism'', ''arbitrum''}"
  using every_report_lists_every_chain [of demo_world]
  by (simp add: demo_run carried_def demo_report_def)

text \<open>
  C3, evaluated on the code. For the readings of the README example the ranker selects
  \<open>optimism\<close> and the recommendation is built from that chain id: it reads
  ``on optimism now'', not ``on Optimism now'' as the README example shows; the display name
  \<open>Optimism\<close> of the registry is never used. The same happens in the example run.
\<close>

theorem recommendation_names_the_chain_id:
  "best_chain (make_report ''2025-09-28T12:00:00Z'' readme_results) = Some ''optimism'' \<and>
   recommendation (make_report ''2025-09-28T12:00:00Z'' readme_results)
     = ''Send your transactions on optimism now for lowest fees.'' \<and>
   recommendation (make_report ''2025-09-28T12:00:00Z'' readme_results)
     \<noteq> ''Send your transactions on Optimism now for lowest fees.'' \<and>
   map_of CHAINS ''optimism'' = Some \<lparr>name = ''Optimism'', rpcEnv = ''RPC_OPTIMISM''\<rparr> \<and>
   best_chain (built_report demo_world) = Some ''optimism'' \<and>
   recommendation (built_report demo_world)
     = ''Send your transactions on optimism now for lowest fees.''"
  by (simp add: make_report_def readme_results_def chooseBestChain_def choose_step_def total_def
        recommendation_for_def CHAINS_def demo_built_report demo_report_def)



text \<open>
  C5. For a chain of the registry whose RPC variable is unset, the reading in the report is
  the error reading \<open>Missing env ...\<close>: its error is a non-empty string and it has neither
  a gas price nor a priority fee. The loop body makes no request for it, no request of the
  whole run is made for that chain, and every chain of the registry, before or after it,
  has in the report the reading of its own loop step.
\<close>

theorem missing_endpoint_is_an_error_reading:
  assumes "(key, meta) \<in> set CHAINS" and "env w (rpcEnv meta) = None"
  shows "map_of (chains (built_report w)) key = Some (Failure (''Missing env '' @ rpcEnv meta)) \<and>
    error (Failure (''Missing env '' @ rpcEnv meta)) = Some (''Missing env '' @ rpcEnv meta) \<and>
    ''Missing env '' @ rpcEnv meta \<noteq> [] \<and>
    gas_price_gwei (Failure (''Missing env '' @ rpcEnv meta)) = None \<and>
    priority_fee_gwei (Failure (''Missing env '' @ rpcEnv meta)) = None \<and>
    snd (chain_step w key meta) = [] \<and>
    (\<forall>url c. Rpc key url c \<notin> set (fst (run w))) \<and>
    (\<forall>k m. (k, m) \<in> set CHAINS \<longrightarrow> map_of (chains (built_report w)) k = Some (fst (chain_step w k m)))"
proof -
  from assms(2) have step: "chain_step w key meta = (Failure (''Missing env '' @ rpcEnv meta), [])"
    by (simp add: chain_step_def)
  have none: "Rpc key url c \<notin> set (snd (main_loop w CHAINS [] []))" for url c
  proof
    assume "Rpc key url c \<in> set (snd (main_loop w CHAINS [] []))"
    from main_loop_events [OF this] obtain k m where
      km: "(k, m) \<in> set CHAINS" "Rpc key url c \<in> set (snd (chain_step w k m))" by blast
    from chain_step_events [OF km(2)] have "k = key" by auto
    with km(1) assms(1) CHAINS_distinct have "m = meta"
      by (meson eq_key_imp_eq_value)
    with km(2) \<open>k = key\<close> step show False by simp
  qed
  then have "Rpc key url c \<notin> set (fst (run w))" for url c
    by (auto simp: run_cases split: option.splits if_splits)
  with step map_of_built_report [OF assms(1), of w] map_of_built_report [of _ _ w]
  show ?thesis by auto
qed

text \<open>In the example run Arbitrum is unconfigured and Optimism, fetched after Base, has its reading.\<close>

theorem missing_endpoint_is_an_error_reading_witness:
  "(''arbitrum'', \<lparr>name = ''Arbitrum'', rpcEnv = ''RPC_ARBITRUM''\<rparr>) \<in> set CHAINS \<and>
   env demo_world ''RPC_ARBITRUM'' = None \<and>
   map_of (chains (built_report demo_world)) ''arbitrum'' = Some (Failure ''Missing env RPC_ARBITRUM'') \<and>
   map_of (chains (built_report demo_world)) ''optimism'' = Some (Reading 6 None)"
proof -
  have registered: "(''arbitrum'', \<lparr>name = ''Arbitrum'', rpcEnv = ''RPC_ARBITRUM''\<rparr>) \<in> set CHAINS"
    by (simp add: CHAINS_def)
  have unset: "env demo_world (rpcEnv \<lparr>name = ''Arbitrum'', rpcEnv = ''RPC_ARBITRUM''\<rparr>) = None"
    by (simp add: demo_world_def)
  from missing_endpoint_is_an_error_reading [OF registered unset] registered unset
  show ?thesis
    by (simp add: demo_built_report demo_report_def)
qed







text \<open>
  C10. Whatever the readings, the ranker returns either nothing or the key of an entry of
  its input whose \<open>error\<close> field is not truthy (absent, or the empty string). Hence the
  \<open>best_chain\<close> of a report is either nothing or a chain of the registry whose reading
  in that report has no truthy error.
\<close>

theorem chooseBestChain_result_is_unerrored_key:
  "(chooseBestChain rs = None \<or>
    (\<exists>k v. chooseBestChain rs = Some k \<and> (k, v) \<in> set rs \<and> \<not> truthy_string (error v))) \<and>
   (best_chain (built_report w) = None \<or>
    (\<exists>k meta v. best_chain (built_report w) = Some k \<and> (k, meta) \<in> set CHAINS \<and>
       map_of (chains (built_report w)) k = Some v \<and> \<not> truthy_string (error v)))"
proof
  show "chooseBestChain rs = None \<or>
    (\<exists>k v. chooseBestChain rs = Some k \<and> (k, v) \<in> set rs \<and> \<not> truthy_string (error v))"
    using chooseBestChain_origin [of rs] by (cases "chooseBestChain rs") auto
next
  show "best_chain (built_report w) = None \<or>
    (\<exists>k meta v. best_chain (built_report w) = Some k \<and> (k, meta) \<in> set CHAINS \<and>
       map_of (chains (built_report w)) k = Some v \<and> \<not> truthy_string (error v))"
  proof (cases "best_chain (built_report w)")
    case None
    then show ?thesis by simp
  next
    case (Some k)
    then have "chooseBestChain (chains (built_report w)) = Some k"
      by (simp add: best_chain_built_report)
    from chooseBestChain_origin [OF this] obtain v
      where v: "(k, v) \<in> set (chains (built_report w))" "\<not> truthy_string (error v)" by auto
    have "distinct (map fst (chains (built_report w)))"
      by (simp add: keys_built_report CHAINS_distinct)
    with v(1) have m: "map_of (chains (built_report w)) k = Some v" by simp
    from v(1) have "k \<in> set (map fst (chains (built_report w)))" by force
    then have "k \<in> fst ` set CHAINS" by (simp add: keys_built_report)
    then obtain meta where "(k, meta) \<in> set CHAINS" by auto
    with Some m v(2) show ?thesis by blast
  qed
qed

theorem chooseBestChain_result_is_unerrored_key_witness:
  "chooseBestChain [(''a'', Failure ''down''), (''b'', Reading 5 None)] = Some ''b'' \<and>
   (\<exists>k v. chooseBestChain [(''a'', Failure ''down''), (''b'', Reading 5 None)] = Some k \<and>
      (k, v) \<in> set [(''a'', Failure ''down''), (''b'', Reading 5 None)] \<and>
      \<not> truthy_string (error v)) \<and>
   best_chain (built_report demo_world) = Some ''optimism'' \<and>
   (\<exists>k meta v. best_chain (built_report demo_world) = Some k \<and> (k, meta) \<in> set CHAINS \<and>
       map_of (chains (built_report demo_world)) k = Some v \<and> \<not> truthy_string (error v))"
proof -
  have a: "chooseBestChain [(''a'', Failure ''down''), (''b'', Reading 5 None)] = Some ''b''"
    by (simp add: chooseBestChain_def choose_step_def total_def)
  have b: "best_chain (built_report demo_world) = Some ''optimism''"
    by (simp add: demo_built_report demo_report_def)
  from chooseBestChain_result_is_unerrored_key
         [of "[(''a'', Failure ''down''), (''b'', Reading 5 None)]" demo_world] a b
  show ?thesis by simp
qed

end
